theory Spec2Isabelle
  imports Main "HOL-Library.Word"
begin

section \<open>Python values, exceptions and dictionary keys\<close>

text \<open>
  The values that \<^verbatim>\<open>json.load\<close> and \<^verbatim>\<open>response.json()\<close> hand to
  \<^verbatim>\<open>wallet.py\<close>: \<^verbatim>\<open>None\<close>, booleans, integers, strings, lists and dictionaries
  with string keys (in insertion order). JSON numbers with a fraction or an exponent
  (Python floats) are not represented.
\<close>

datatype pyval =
    PNone
  | PBool bool
  | PInt int
  | PStr string
  | PList "pyval list"
  | PDict "(string \<times> pyval) list"

text \<open>
  Exceptions, all of them subclasses of \<^verbatim>\<open>Exception\<close>. \<open>ValueError\<close> and
  \<open>KeyError\<close> carry their argument; \<open>External\<close> is any exception raised inside a
  collaborator (the JSON decoder, web3, eth_account, requests), named by the string.
\<close>

datatype exn =
    ValueError string
  | KeyError string
  | TypeError
  | FileNotFoundError
  | IsADirectoryError
  | NotADirectoryError
  | FileExistsError
  | External string

text \<open>
  Keys of the dictionary \<^verbatim>\<open>self.accounts\<close>, up to Python's equality of hashable
  values: \<^verbatim>\<open>True == 1\<close> and \<^verbatim>\<open>False == 0\<close>; lists and dictionaries are unhashable.
\<close>

datatype key = KNone | KInt int | KStr string

fun py_hash_key :: "pyval \<Rightarrow> exn + key" where
  "py_hash_key PNone = Inr KNone"
| "py_hash_key (PBool b) = Inr (KInt (if b then 1 else 0))"
| "py_hash_key (PInt i) = Inr (KInt i)"
| "py_hash_key (PStr s) = Inr (KStr s)"
| "py_hash_key (PList xs) = Inl TypeError"
| "py_hash_key (PDict kvs) = Inl TypeError"

text \<open>\<^verbatim>\<open>obj[k]\<close> with a string \<open>k\<close>: only a dictionary can answer.\<close>

fun getitem :: "pyval \<Rightarrow> string \<Rightarrow> exn + pyval" where
  "getitem (PDict kvs) k = (case map_of kvs k of None \<Rightarrow> Inl (KeyError k) | Some v \<Rightarrow> Inr v)"
| "getitem PNone k = Inl TypeError"
| "getitem (PBool b) k = Inl TypeError"
| "getitem (PInt i) k = Inl TypeError"
| "getitem (PStr s) k = Inl TypeError"
| "getitem (PList xs) k = Inl TypeError"

text \<open>\<^verbatim>\<open>for tx in obj\<close>: the elements of a list, the keys of a dictionary, the
  characters of a string; anything else is not iterable.\<close>

fun py_iter :: "pyval \<Rightarrow> exn + pyval list" where
  "py_iter (PList xs) = Inr xs"
| "py_iter (PDict kvs) = Inr (map (\<lambda>kv. PStr (fst kv)) kvs)"
| "py_iter (PStr s) = Inr (map (\<lambda>c. PStr [c]) s)"
| "py_iter PNone = Inl TypeError"
| "py_iter (PBool b) = Inl TypeError"
| "py_iter (PInt i) = Inl TypeError"

text \<open>\<^verbatim>\<open>"0x" + private_key\<close>: concatenation needs a string on the right.\<close>

fun str_add :: "string \<Rightarrow> pyval \<Rightarrow> exn + string" where
  "str_add p (PStr s) = Inr (p @ s)"
| "str_add p PNone = Inl TypeError"
| "str_add p (PBool b) = Inl TypeError"
| "str_add p (PInt i) = Inl TypeError"
| "str_add p (PList xs) = Inl TypeError"
| "str_add p (PDict kvs) = Inl TypeError"

definition endswith :: "string \<Rightarrow> string \<Rightarrow> bool" where
  "endswith s suf = (length suf \<le> length s \<and> drop (length s - length suf) s = suf)"

section \<open>The world outside the process\<close>

text \<open>
  The directory \<^verbatim>\<open>wallets\<close> of the working directory: missing, something that is not
  a directory, or a directory whose entries are listed in the order of
  \<^verbatim>\<open>os.listdir\<close>. An entry is a regular file with its text, or a subdirectory.
\<close>

datatype fnode = RegularFile string | Directory

datatype wnode = Missing | NotADir | Dir "(string \<times> fnode) list"

text \<open>What the process prints, and the requests it sends over the network.\<close>

datatype printed = ErrorLoadingWallet string exn

datatype call =
    GetTransactionCount string
  | GasPrice
  | ChainId
  | SendRawTransaction string
  | WaitForTransactionReceipt string
  | HttpGet string "(string \<times> pyval) list"

record world =
  wallets :: wnode
  stdout :: "printed list"
  calls :: "call list"
  rng_pos :: nat

text \<open>The transaction dictionary built by \<^verbatim>\<open>send_transaction\<close>.\<close>

record transaction =
  tx_nonce :: int
  tx_to :: string
  tx_value :: int
  tx_gas :: int
  tx_gasPrice :: int
  tx_chainId :: int

record response =
  status_code :: int
  json :: "exn + pyval"

text \<open>A value of a formatted transaction: a Python value taken from the explorer's
  answer, or the decimal number that \<^verbatim>\<open>from_wei\<close> returns.\<close>

datatype 'dec fval = FPy pyval | FDec 'dec

text \<open>
  The collaborators, as parameters: the environment variables, the JSON codec
  (\<^verbatim>\<open>json.load\<close>, \<^verbatim>\<open>json.dump(..., indent=4)\<close>), the bytes of the operating system's
  random source, eth_account (\<^verbatim>\<open>Account.from_key(k).address\<close>), web3 (hashing, address
  syntax, unit conversion, signing, the RPC requests) and requests. A collaborator that can
  raise returns \<open>Inl\<close>. \<open>'amt\<close> is the type of the amount argument (a Python float),
  \<open>'dec\<close> the type of \<^verbatim>\<open>from_wei\<close>'s result.
\<close>

record ('amt, 'dec) env =
  infura_api_key :: string
  etherscan_api_key :: string
  json_load :: "string \<Rightarrow> exn + pyval"
  json_dump :: "pyval \<Rightarrow> string"
  entropy :: "nat \<Rightarrow> 8 word"
  from_key :: "string \<Rightarrow> exn + string"
  keccak_text_hex :: "string \<Rightarrow> string"
  is_address :: "string \<Rightarrow> bool"
  get_transaction_count :: "string \<Rightarrow> exn + int"
  gas_price :: "exn + int"
  to_wei_ether :: "'amt \<Rightarrow> exn + int"
  chain_id :: "exn + int"
  sign_transaction :: "transaction \<Rightarrow> string \<Rightarrow> exn + string"
  send_raw_transaction :: "string \<Rightarrow> exn + string"
  wait_for_transaction_receipt :: "string \<Rightarrow> exn + unit"
  to_hex :: "string \<Rightarrow> string"
  requests_get :: "string \<Rightarrow> (string \<times> pyval) list \<Rightarrow> exn + response"
  from_wei_ether :: "int \<Rightarrow> exn + 'dec"
  py_int :: "pyval \<Rightarrow> exn + int"
  fromtimestamp_strftime :: "int \<Rightarrow> exn + string"

section \<open>The class CryptoWallet\<close>

record network_config =
  url :: string
  explorer :: string
  explorer_key :: string
  faucet :: string

record crypto_wallet =
  network :: string
  accounts :: "key \<rightharpoonup> pyval"

text \<open>\<^verbatim>\<open>self.networks\<close>, a dictionary with the two keys sepolia and goerli.\<close>

definition networks :: "('amt, 'dec) env \<Rightarrow> string \<rightharpoonup> network_config" where
  "networks e n =
     (if n = ''sepolia'' then
        Some \<lparr>url = ''https://sepolia.infura.io/v3/'' @ infura_api_key e,
              explorer = ''https://api-sepolia.etherscan.io/api'',
              explorer_key = etherscan_api_key e,
              faucet = ''https://sepoliafaucet.com/''\<rparr>
      else if n = ''goerli'' then
        Some \<lparr>url = ''https://goerli.infura.io/v3/'' @ infura_api_key e,
              explorer = ''https://api-goerli.etherscan.io/api'',
              explorer_key = etherscan_api_key e,
              faucet = ''https://goerlifaucet.com/''\<rparr>
      else None)"

subsection \<open>Loading the wallet files\<close>

text \<open>The body of the \<^verbatim>\<open>try\<close> block up to the assignment: open the file for reading,
  decode it, take its \<^verbatim>\<open>'address'\<close> and hash it as a dictionary key.\<close>

definition load_wallet_file :: "('amt, 'dec) env \<Rightarrow> fnode \<Rightarrow> exn + (key \<times> pyval)" where
  "load_wallet_file e node =
     (case node of
        Directory \<Rightarrow> Inl IsADirectoryError
      | RegularFile text \<Rightarrow>
          (case json_load e text of
             Inl x \<Rightarrow> Inl x
           | Inr wallet_data \<Rightarrow>
               (case getitem wallet_data ''address'' of
                  Inl x \<Rightarrow> Inl x
                | Inr a \<Rightarrow>
                    (case py_hash_key a of
                       Inl x \<Rightarrow> Inl x
                     | Inr k \<Rightarrow> Inr (k, wallet_data)))))"

text \<open>The \<^verbatim>\<open>for\<close> loop over the listing.\<close>

fun load_loop ::
  "('amt, 'dec) env \<Rightarrow> (string \<times> fnode) list \<Rightarrow> crypto_wallet \<Rightarrow> world \<Rightarrow> crypto_wallet \<times> world"
where
  "load_loop e [] self w = (self, w)"
| "load_loop e ((filename, node) # rest) self w =
     (if endswith filename ''.json'' then
        (case load_wallet_file e node of
           Inr (k, wallet_data) \<Rightarrow>
             load_loop e rest (self\<lparr>accounts := (accounts self)(k \<mapsto> wallet_data)\<rparr>) w
         | Inl x \<Rightarrow>
             load_loop e rest self (w\<lparr>stdout := stdout w @ [ErrorLoadingWallet filename x]\<rparr>))
      else load_loop e rest self w)"

definition load_existing_wallets ::
  "('amt, 'dec) env \<Rightarrow> crypto_wallet \<Rightarrow> world \<Rightarrow> (exn + unit) \<times> crypto_wallet \<times> world"
where
  "load_existing_wallets e self w =
     (case wallets w of
        Missing \<Rightarrow> (Inr (), self, w)
      | NotADir \<Rightarrow> (Inl NotADirectoryError, self, w)
      | Dir entries \<Rightarrow> (case load_loop e entries self w of (self', w') \<Rightarrow> (Inr (), self', w')))"

text \<open>\<^verbatim>\<open>os.makedirs('wallets', exist_ok=True)\<close>.\<close>

definition makedirs :: "wnode \<Rightarrow> exn + wnode" where
  "makedirs d =
     (case d of Missing \<Rightarrow> Inr (Dir []) | NotADir \<Rightarrow> Inl FileExistsError | Dir entries \<Rightarrow> Inr (Dir entries))"

text \<open>\<^verbatim>\<open>CryptoWallet(network)\<close>.\<close>

definition init ::
  "('amt, 'dec) env \<Rightarrow> string \<Rightarrow> world \<Rightarrow> (exn + crypto_wallet) \<times> world"
where
  "init e net w =
     (case networks e net of
        None \<Rightarrow> (Inl (KeyError net), w)
      | Some cfg \<Rightarrow>
          (case makedirs (wallets w) of
             Inl x \<Rightarrow> (Inl x, w)
           | Inr d \<Rightarrow>
               (case load_existing_wallets e \<lparr>network = net, accounts = Map.empty\<rparr> (w\<lparr>wallets := d\<rparr>) of
                  (Inl x, self, w') \<Rightarrow> (Inl x, w')
                | (Inr u, self, w') \<Rightarrow> (Inr self, w'))))"

subsection \<open>Creating a wallet\<close>

text \<open>\<^verbatim>\<open>secrets.token_hex(n)\<close>: \<open>n\<close> bytes of the random source, each written as two
  lower-case hexadecimal digits.\<close>

definition hex_digit :: "nat \<Rightarrow> char" where
  "hex_digit n = ''0123456789abcdef'' ! (n mod 16)"

definition hex_byte :: "8 word \<Rightarrow> string" where
  "hex_byte b = [hex_digit (unat b div 16), hex_digit (unat b mod 16)]"

definition token_bytes :: "(nat \<Rightarrow> 8 word) \<Rightarrow> nat \<Rightarrow> nat \<Rightarrow> 8 word list" where
  "token_bytes src pos n = map src [pos ..< pos + n]"

definition token_hex :: "(nat \<Rightarrow> 8 word) \<Rightarrow> nat \<Rightarrow> nat \<Rightarrow> string" where
  "token_hex src pos n = concat (map hex_byte (token_bytes src pos n))"

text \<open>\<^verbatim>\<open>open(path, 'w')\<close> inside the directory: the file is created empty, or an
  existing file is cut to length zero.\<close>

definition put_entry :: "string \<Rightarrow> string \<Rightarrow> (string \<times> fnode) list \<Rightarrow> (string \<times> fnode) list" where
  "put_entry name text entries =
     (if name \<in> fst ` set entries
      then map (\<lambda>(n, x). if n = name then (n, RegularFile text) else (n, x)) entries
      else entries @ [(name, RegularFile text)])"

definition open_w :: "wnode \<Rightarrow> string \<Rightarrow> exn + wnode" where
  "open_w d name =
     (case d of
        Missing \<Rightarrow> Inl FileNotFoundError
      | NotADir \<Rightarrow> Inl NotADirectoryError
      | Dir entries \<Rightarrow>
          (if (name, Directory) \<in> set entries then Inl IsADirectoryError
           else Inr (Dir (put_entry name [] entries))))"

text \<open>The text written through the open file and flushed when the \<^verbatim>\<open>with\<close> block
  closes it.\<close>

definition write_w :: "wnode \<Rightarrow> string \<Rightarrow> string \<Rightarrow> wnode" where
  "write_w d name text =
     (case d of Dir entries \<Rightarrow> Dir (put_entry name text entries) | Missing \<Rightarrow> Missing | NotADir \<Rightarrow> NotADir)"

definition file_text :: "wnode \<Rightarrow> string \<Rightarrow> string option" where
  "file_text d name =
     (case d of
        Dir entries \<Rightarrow>
          (case map_of entries name of Some (RegularFile text) \<Rightarrow> Some text | Some Directory \<Rightarrow> None | None \<Rightarrow> None)
      | Missing \<Rightarrow> None
      | NotADir \<Rightarrow> None)"

definition wallet_record :: "('amt, 'dec) env \<Rightarrow> string \<Rightarrow> string \<Rightarrow> pyval" where
  "wallet_record e address private_key =
     PDict [(''address'', PStr address),
            (''private_key'', PStr private_key),
            (''public_key'', PStr (keccak_text_hex e address))]"

definition create_wallet ::
  "('amt, 'dec) env \<Rightarrow> crypto_wallet \<Rightarrow> world \<Rightarrow> (exn + pyval) \<times> crypto_wallet \<times> world"
where
  "create_wallet e self w =
     (let private_key = token_hex (entropy e) (rng_pos w) 32;
          w1 = w\<lparr>rng_pos := rng_pos w + 32\<rparr>
      in case from_key e private_key of
           Inl x \<Rightarrow> (Inl x, self, w1)
         | Inr address \<Rightarrow>
             (let wallet_data = wallet_record e address private_key;
                  wallet_path = address @ ''.json''
              in case open_w (wallets w1) wallet_path of
                   Inl x \<Rightarrow> (Inl x, self, w1)
                 | Inr opened \<Rightarrow>
                     (Inr wallet_data,
                      self\<lparr>accounts := (accounts self)(KStr address \<mapsto> wallet_data)\<rparr>,
                      w1\<lparr>wallets := write_w opened wallet_path (json_dump e wallet_data)\<rparr>)))"

text \<open>The states of the directory that one call of \<^verbatim>\<open>create_wallet\<close> passes through:
  before line 80, after \<^verbatim>\<open>open(wallet_path, 'w')\<close> of line 80, and after the
  \<^verbatim>\<open>with\<close> block has written and closed the file.\<close>

definition create_wallet_trace :: "('amt, 'dec) env \<Rightarrow> world \<Rightarrow> wnode list" where
  "create_wallet_trace e w =
     (let private_key = token_hex (entropy e) (rng_pos w) 32
      in case from_key e private_key of
           Inl x \<Rightarrow> [wallets w]
         | Inr address \<Rightarrow>
             (let wallet_data = wallet_record e address private_key;
                  wallet_path = address @ ''.json''
              in case open_w (wallets w) wallet_path of
                   Inl x \<Rightarrow> [wallets w]
                 | Inr opened \<Rightarrow>
                     [wallets w, opened, write_w opened wallet_path (json_dump e wallet_data)]))"

subsection \<open>Requesting an airdrop\<close>

definition request_airdrop ::
  "('amt, 'dec) env \<Rightarrow> crypto_wallet \<Rightarrow> world \<Rightarrow> string
     \<Rightarrow> (exn + (string \<times> string) list) \<times> crypto_wallet \<times> world"
where
  "request_airdrop e self w address =
     (if \<not> is_address e address then (Inl (ValueError ''Invalid address''), self, w)
      else case networks e (network self) of
             None \<Rightarrow> (Inl (KeyError (network self)), self, w)
           | Some cfg \<Rightarrow>
               (Inr [(''status'', ''success''),
                     (''message'',
                        ''Please visit '' @ faucet cfg @ '' to request tokens for address: '' @ address),
                     (''network'', network self)],
                self, w))"

subsection \<open>Sending a transaction\<close>

definition send_transaction ::
  "('amt, 'dec) env \<Rightarrow> crypto_wallet \<Rightarrow> world \<Rightarrow> string \<Rightarrow> string \<Rightarrow> 'amt
     \<Rightarrow> (exn + string) \<times> crypto_wallet \<times> world"
where
  "send_transaction e self w from_address to_address amount =
     (case accounts self (KStr from_address) of
        None \<Rightarrow> (Inl (ValueError ''Sender address not found in wallet''), self, w)
      | Some account \<Rightarrow>
     (case getitem account ''private_key'' of
        Inl x \<Rightarrow> (Inl x, self, w)
      | Inr private_key \<Rightarrow>
     (let w1 = w\<lparr>calls := calls w @ [GetTransactionCount from_address]\<rparr>
      in case get_transaction_count e from_address of
        Inl x \<Rightarrow> (Inl x, self, w1)
      | Inr nonce \<Rightarrow>
     (let w2 = w1\<lparr>calls := calls w1 @ [GasPrice]\<rparr>
      in case gas_price e of
        Inl x \<Rightarrow> (Inl x, self, w2)
      | Inr price \<Rightarrow>
     (case to_wei_ether e amount of
        Inl x \<Rightarrow> (Inl x, self, w2)
      | Inr value_in_wei \<Rightarrow>
     (let w3 = w2\<lparr>calls := calls w2 @ [ChainId]\<rparr>
      in case chain_id e of
        Inl x \<Rightarrow> (Inl x, self, w3)
      | Inr chain \<Rightarrow>
     (let transaction =
            \<lparr>tx_nonce = nonce, tx_to = to_address, tx_value = value_in_wei,
             tx_gas = 21000, tx_gasPrice = price, tx_chainId = chain\<rparr>
      in case str_add ''0x'' private_key of
        Inl x \<Rightarrow> (Inl x, self, w3)
      | Inr signing_key \<Rightarrow>
     (case sign_transaction e transaction signing_key of
        Inl x \<Rightarrow> (Inl x, self, w3)
      | Inr raw_transaction \<Rightarrow>
     (let w4 = w3\<lparr>calls := calls w3 @ [SendRawTransaction raw_transaction]\<rparr>
      in case send_raw_transaction e raw_transaction of
        Inl x \<Rightarrow> (Inl x, self, w4)
      | Inr tx_hash \<Rightarrow>
     (let w5 = w4\<lparr>calls := calls w4 @ [WaitForTransactionReceipt tx_hash]\<rparr>
      in case wait_for_transaction_receipt e tx_hash of
        Inl x \<Rightarrow> (Inl x, self, w5)
      | Inr receipt \<Rightarrow> (Inr (to_hex e tx_hash), self, w5)))))))))))"

subsection \<open>The transaction history\<close>

text \<open>One pass of the loop of \<^verbatim>\<open>_format_transactions\<close>: the dictionary appended for
  one transaction, its entries evaluated in the order of the source.\<close>

definition format_tx :: "('amt, 'dec) env \<Rightarrow> pyval \<Rightarrow> exn + (string \<times> 'dec fval) list" where
  "format_tx e tx =
     (case getitem tx ''hash'' of Inl x \<Rightarrow> Inl x | Inr h \<Rightarrow>
     (case getitem tx ''from'' of Inl x \<Rightarrow> Inl x | Inr f \<Rightarrow>
     (case getitem tx ''to'' of Inl x \<Rightarrow> Inl x | Inr t \<Rightarrow>
     (case getitem tx ''value'' of Inl x \<Rightarrow> Inl x | Inr v \<Rightarrow>
     (case py_int e v of Inl x \<Rightarrow> Inl x | Inr wei \<Rightarrow>
     (case from_wei_ether e wei of Inl x \<Rightarrow> Inl x | Inr ether \<Rightarrow>
     (case getitem tx ''gasUsed'' of Inl x \<Rightarrow> Inl x | Inr g \<Rightarrow>
     (case getitem tx ''timeStamp'' of Inl x \<Rightarrow> Inl x | Inr ts \<Rightarrow>
     (case py_int e ts of Inl x \<Rightarrow> Inl x | Inr seconds \<Rightarrow>
     (case fromtimestamp_strftime e seconds of Inl x \<Rightarrow> Inl x | Inr stamp \<Rightarrow>
     (case getitem tx ''txreceipt_status'' of Inl x \<Rightarrow> Inl x | Inr st \<Rightarrow>
        Inr [(''hash'', FPy h),
             (''from'', FPy f),
             (''to'', FPy t),
             (''value'', FDec ether),
             (''gas_used'', FPy g),
             (''timestamp'', FPy (PStr stamp)),
             (''status'', FPy (PStr (if st = PStr ''1'' then ''Success'' else ''Failed'')))]
     )))))))))))"

fun format_loop ::
  "('amt, 'dec) env \<Rightarrow> pyval list \<Rightarrow> (string \<times> 'dec fval) list list
     \<Rightarrow> exn + (string \<times> 'dec fval) list list"
where
  "format_loop e [] formatted = Inr formatted"
| "format_loop e (tx # rest) formatted =
     (case format_tx e tx of
        Inl x \<Rightarrow> Inl x
      | Inr d \<Rightarrow> format_loop e rest (formatted @ [d]))"

definition format_transactions ::
  "('amt, 'dec) env \<Rightarrow> pyval \<Rightarrow> exn + (string \<times> 'dec fval) list list"
where
  "format_transactions e transactions =
     (case py_iter transactions of
        Inl x \<Rightarrow> Inl x
      | Inr txs \<Rightarrow> format_loop e txs [])"

definition history_params :: "network_config \<Rightarrow> string \<Rightarrow> (string \<times> pyval) list" where
  "history_params cfg address =
     [(''module'', PStr ''account''),
      (''action'', PStr ''txlist''),
      (''address'', PStr address),
      (''startblock'', PInt 0),
      (''endblock'', PInt 99999999),
      (''sort'', PStr ''desc''),
      (''apikey'', PStr (explorer_key cfg))]"

definition get_transaction_history ::
  "('amt, 'dec) env \<Rightarrow> crypto_wallet \<Rightarrow> world \<Rightarrow> string
     \<Rightarrow> (exn + (string \<times> 'dec fval) list list) \<times> crypto_wallet \<times> world"
where
  "get_transaction_history e self w address =
     (if \<not> is_address e address then (Inl (ValueError ''Invalid address''), self, w)
      else case networks e (network self) of
        None \<Rightarrow> (Inl (KeyError (network self)), self, w)
      | Some cfg \<Rightarrow>
     (let params = history_params cfg address;
          w1 = w\<lparr>calls := calls w @ [HttpGet (explorer cfg) params]\<rparr>
      in case requests_get e (explorer cfg) params of
        Inl x \<Rightarrow> (Inl x, self, w1)
      | Inr response \<Rightarrow>
          if status_code response = 200 then
            (case json response of
               Inl x \<Rightarrow> (Inl x, self, w1)
             | Inr data \<Rightarrow>
            (case getitem data ''status'' of
               Inl x \<Rightarrow> (Inl x, self, w1)
             | Inr status \<Rightarrow>
                 if status = PStr ''1'' then
                   (case getitem data ''result'' of
                      Inl x \<Rightarrow> (Inl x, self, w1)
                    | Inr result \<Rightarrow> (format_transactions e result, self, w1))
                 else (Inr [], self, w1)))
          else (Inr [], self, w1)))"

section \<open>The records and warnings of a listing\<close>

text \<open>
  Stated from the specification, to compare the loop with: the records of the entries
  that end in \<^verbatim>\<open>.json\<close> and load without an exception, each with its key, in
  listing order; and one warning for each entry that ends in \<^verbatim>\<open>.json\<close> and raises.
\<close>

definition loaded_records :: "('amt, 'dec) env \<Rightarrow> (string \<times> fnode) list \<Rightarrow> (key \<times> pyval) list" where
  "loaded_records e entries =
     concat (map (\<lambda>(filename, node).
        if endswith filename ''.json''
        then (case load_wallet_file e node of Inr kv \<Rightarrow> [kv] | Inl x \<Rightarrow> [])
        else []) entries)"

definition load_warnings :: "('amt, 'dec) env \<Rightarrow> (string \<times> fnode) list \<Rightarrow> printed list" where
  "load_warnings e entries =
     concat (map (\<lambda>(filename, node).
        if endswith filename ''.json''
        then (case load_wallet_file e node of Inr kv \<Rightarrow> [] | Inl x \<Rightarrow> [ErrorLoadingWallet filename x])
        else []) entries)"

section \<open>An example environment\<close>

text \<open>
  One concrete choice of the collaborators and of the directory, on which the model is
  evaluated: the private key 1, its address, a stand-in for the digest, the text that
  \<^verbatim>\<open>json.dump(..., indent=4)\<close> writes for that record, a second record with the same
  address under another file name, a signer that rejects a malformed recipient, and an
  explorer that cannot be reached.
\<close>

definition demo_address :: string where
  "demo_address = ''0x7E5F4552091A69125d5DfCb7b8C2659029395Bdf''"

definition demo_private_key :: string where
  "demo_private_key = ''0000000000000000000000000000000000000000000000000000000000000001''"

definition demo_public_key :: string where
  "demo_public_key = ''0x'' @ replicate 64 CHR ''a''"

definition demo_wallet :: pyval where
  "demo_wallet =
     PDict [(''address'', PStr demo_address),
            (''private_key'', PStr demo_private_key),
            (''public_key'', PStr demo_public_key)]"

definition demo_wallet_text :: string where
  \<open>demo_wallet_text =
     ''{'' @ [CHR 0x0A] @
     ''    "address": "'' @ demo_address @ ''",'' @ [CHR 0x0A] @
     ''    "private_key": "'' @ demo_private_key @ ''",'' @ [CHR 0x0A] @
     ''    "public_key": "'' @ demo_public_key @ ''"'' @ [CHR 0x0A] @
     ''}''\<close>

definition demo_other_wallet :: pyval where
  "demo_other_wallet =
     PDict [(''address'', PStr demo_address), (''private_key'', PStr ''ff'')]"

definition demo_other_text :: string where
  \<open>demo_other_text =
     ''{"address": "'' @ demo_address @ ''", "private_key": "ff"}''\<close>

definition demo_is_address :: "string \<Rightarrow> bool" where
  "demo_is_address a = (length a = 42 \<and> take 2 a = ''0x'')"

definition demo_env :: "(int, int) env" where
  "demo_env =
     \<lparr>infura_api_key = ''infura-key'',
      etherscan_api_key = ''etherscan-key'',
      json_load = (\<lambda>text. if text = demo_wallet_text then Inr demo_wallet
                          else if text = demo_other_text then Inr demo_other_wallet
                          else Inl (External ''JSONDecodeError'')),
      json_dump = (\<lambda>v. if v = demo_wallet then demo_wallet_text else ''null''),
      entropy = (\<lambda>i. if i mod 32 = 31 then 1 else 0),
      from_key = (\<lambda>k. if k = demo_private_key then Inr demo_address
                       else Inl (External ''ValidationError'')),
      keccak_text_hex = (\<lambda>a. demo_public_key),
      is_address = demo_is_address,
      get_transaction_count = (\<lambda>a. Inr 0),
      gas_price = Inr 1000000000,
      to_wei_ether = (\<lambda>a. Inr (a * 1000000000000000000)),
      chain_id = Inr 11155111,
      sign_transaction = (\<lambda>tx k. if demo_is_address (tx_to tx) then Inr ''signed''
                                  else Inl (External ''InvalidAddress'')),
      send_raw_transaction = (\<lambda>raw. Inr ''hash''),
      wait_for_transaction_receipt = (\<lambda>h. Inr ()),
      to_hex = (\<lambda>h. ''0x'' @ h),
      requests_get = (\<lambda>u p. Inl (External ''ConnectionError'')),
      from_wei_ether = (\<lambda>i. Inr i),
      py_int = (\<lambda>v. case v of PInt i \<Rightarrow> Inr i | PNone \<Rightarrow> Inl TypeError | PBool b \<Rightarrow> Inl TypeError
                       | PStr t \<Rightarrow> Inl (ValueError t) | PList xs \<Rightarrow> Inl TypeError
                       | PDict kvs \<Rightarrow> Inl TypeError),
      fromtimestamp_strftime = (\<lambda>t. Inr ''1970-01-01 00:00:00'')\<rparr>"

definition demo_listing :: "(string \<times> fnode) list" where
  "demo_listing =
     [(''notes.txt'', RegularFile demo_wallet_text),
      (''broken.json'', RegularFile ''{''),
      (''backup.json'', RegularFile demo_other_text),
      (demo_address @ ''.json'', RegularFile demo_wallet_text),
      (''folder.json'', Directory)]"

definition demo_world :: "wnode \<Rightarrow> world" where
  "demo_world d = \<lparr>wallets = d, stdout = [], calls = [], rng_pos = 0\<rparr>"

definition demo_self :: crypto_wallet where
  "demo_self = \<lparr>network = ''sepolia'', accounts = [KStr demo_address \<mapsto> demo_wallet]\<rparr>"

section \<open>The loop over the listing\<close>

lemma loaded_records_Nil [simp]: "loaded_records e [] = []"
  by (simp add: loaded_records_def)

lemma load_warnings_Nil [simp]: "load_warnings e [] = []"
  by (simp add: load_warnings_def)

lemma loaded_records_Cons:
  "loaded_records e ((filename, node) # rest) =
     (if endswith filename ''.json''
      then (case load_wallet_file e node of Inr kv \<Rightarrow> [kv] | Inl x \<Rightarrow> [])
      else []) @ loaded_records e rest"
  by (simp add: loaded_records_def)

lemma load_warnings_Cons:
  "load_warnings e ((filename, node) # rest) =
     (if endswith filename ''.json''
      then (case load_wallet_file e node of Inr kv \<Rightarrow> [] | Inl x \<Rightarrow> [ErrorLoadingWallet filename x])
      else []) @ load_warnings e rest"
  by (simp add: load_warnings_def)

lemma loaded_records_append:
  "loaded_records e (xs @ ys) = loaded_records e xs @ loaded_records e ys"
  by (simp add: loaded_records_def)

lemma load_loop_eq:
  "load_loop e entries self w =
     (self\<lparr>accounts := accounts self ++ map_of (rev (loaded_records e entries))\<rparr>,
      w\<lparr>stdout := stdout w @ load_warnings e entries\<rparr>)"
proof (induction entries arbitrary: self w)
  case Nil
  show ?case by simp
next
  case (Cons entry rest)
  obtain filename node where entry: "entry = (filename, node)" by (cases entry)
  show ?case
  proof (cases "endswith filename ''.json''")
    case False
    then show ?thesis
      by (simp add: entry Cons.IH loaded_records_Cons load_warnings_Cons)
  next
    case True
    show ?thesis
    proof (cases "load_wallet_file e node")
      case (Inl x)
      with True show ?thesis
        by (simp add: entry Cons.IH loaded_records_Cons load_warnings_Cons)
    next
      case (Inr kv)
      obtain k wallet_data where kv: "kv = (k, wallet_data)" by (cases kv)
      have maps: "(accounts self)(k \<mapsto> wallet_data) ++ map_of (rev (loaded_records e rest)) =
            accounts self ++ map_of (rev (loaded_records e rest) @ [(k, wallet_data)])"
        by (rule ext) (simp add: map_add_def split: option.splits)
      have step: "load_loop e (entry # rest) self w =
            load_loop e rest (self\<lparr>accounts := (accounts self)(k \<mapsto> wallet_data)\<rparr>) w"
        using True Inr kv by (simp add: entry)
      have recs: "loaded_records e (entry # rest) = (k, wallet_data) # loaded_records e rest"
        using True Inr kv by (simp add: entry loaded_records_Cons)
      have warns: "load_warnings e (entry # rest) = load_warnings e rest"
        using True Inr kv by (simp add: entry load_warnings_Cons)
      have "load_loop e (entry # rest) self w =
              (self\<lparr>accounts := (accounts self)(k \<mapsto> wallet_data) ++ map_of (rev (loaded_records e rest))\<rparr>,
               w\<lparr>stdout := stdout w @ load_warnings e rest\<rparr>)"
        unfolding step Cons.IH by simp
      then show ?thesis
        unfolding recs warns rev.simps maps .
    qed
  qed
qed

lemma init_eq:
  assumes "networks e net = Some cfg" and "makedirs (wallets w) = Inr (Dir entries)"
  shows "init e net w =
           (Inr \<lparr>network = net, accounts = map_of (rev (loaded_records e entries))\<rparr>,
            w\<lparr>wallets := Dir entries, stdout := stdout w @ load_warnings e entries\<rparr>)"
  using assms by (simp add: init_def load_existing_wallets_def load_loop_eq)

lemma map_of_rev_last:
  assumes "(k, v) \<in> set xs" and "\<And>v'. (k, v') \<in> set xs \<Longrightarrow> v' = v"
  shows "map_of (rev xs) k = Some v"
proof -
  have "k \<in> fst ` set (rev xs)" using assms(1) by force
  then obtain v' where v': "map_of (rev xs) k = Some v'"
    by (cases "map_of (rev xs) k") (auto simp: map_of_eq_None_iff)
  then have "(k, v') \<in> set xs" by (auto dest: map_of_SomeD)
  with assms(2) v' show ?thesis by simp
qed

lemma map_of_rev_split:
  assumes "\<And>v'. (k, v') \<notin> set post"
  shows "map_of (rev (pre @ (k, v) # post)) k = Some v"
proof -
  have "k \<notin> fst ` set (rev post)"
    using assms by force
  then have "map_of (rev post) k = None"
    by (simp add: map_of_eq_None_iff)
  then show ?thesis by (simp add: map_add_def)
qed

lemma in_loaded_records_iff:
  "(k, v) \<in> set (loaded_records e entries) \<longleftrightarrow>
     (\<exists>filename node. (filename, node) \<in> set entries \<and> endswith filename ''.json'' \<and>
        load_wallet_file e node = Inr (k, v))"
proof (induction entries)
  case Nil
  show ?case by simp
next
  case (Cons entry rest)
  obtain filename node where entry: "entry = (filename, node)" by (cases entry)
  show ?case
  proof (cases "endswith filename ''.json''")
    case False
    then show ?thesis
      using Cons.IH by (auto simp: entry loaded_records_Cons)
  next
    case True
    show ?thesis
    proof (cases "load_wallet_file e node")
      case (Inl x)
      with True show ?thesis
        using Cons.IH by (auto simp: entry loaded_records_Cons)
    next
      case (Inr kv)
      with True show ?thesis
        using Cons.IH by (auto simp: entry loaded_records_Cons)
    qed
  qed
qed

lemma loaded_records_filter:
  "loaded_records e (filter (\<lambda>(filename, node). endswith filename ''.json'') entries) = loaded_records e entries"
  by (induction entries) (auto simp: loaded_records_def)

lemma load_warnings_filter:
  "load_warnings e (filter (\<lambda>(filename, node). endswith filename ''.json'') entries) = load_warnings e entries"
  by (induction entries) (auto simp: load_warnings_def)

section \<open>Sending a transaction: the sender check and the frame\<close>

text \<open>
  Claim C1. When \<open>from_address\<close> has no entry in \<^verbatim>\<open>self.accounts\<close>,
  \<^verbatim>\<open>send_transaction\<close> raises \<^verbatim>\<open>ValueError("Sender address not found in wallet")\<close>;
  the object and the world come back as they were: no request has been sent, and the
  mapping and the files are unchanged.
\<close>

theorem send_transaction_sender_not_found:
  "accounts self (KStr from_address) = None \<Longrightarrow>
   send_transaction e self w from_address to_address amount =
     (Inl (ValueError ''Sender address not found in wallet''), self, w)"
  by (simp add: send_transaction_def)

theorem send_transaction_sender_not_found_witness:
  "accounts demo_self (KStr ''0xabc'') = None \<and>
   send_transaction demo_env demo_self (demo_world (Dir demo_listing)) ''0xabc'' demo_address 1 =
     (Inl (ValueError ''Sender address not found in wallet''), demo_self, demo_world (Dir demo_listing))"
proof -
  have absent: "accounts demo_self (KStr ''0xabc'') = None"
    by (simp add: demo_self_def demo_address_def)
  from send_transaction_sender_not_found [OF absent] absent show ?thesis by simp
qed

text \<open>
  Claim C8. Whatever its arguments and whatever the collaborators answer, whether it
  returns or raises, \<^verbatim>\<open>send_transaction\<close> leaves the object (its network and its
  mapping \<^verbatim>\<open>self.accounts\<close>) and the directory of wallet files as they were.
\<close>

theorem send_transaction_frame:
  "fst (snd (send_transaction e self w from_address to_address amount)) = self \<and>
   wallets (snd (snd (send_transaction e self w from_address to_address amount))) = wallets w"
  by (simp add: send_transaction_def Let_def split: option.splits sum.splits)

section \<open>Writing a file of the directory\<close>

lemma map_replace_absent:
  "name \<notin> fst ` set es \<Longrightarrow>
   map (\<lambda>(n, x). if n = name then (n, RegularFile text) else (n, x)) es = es"
  by (induction es) auto

lemma map_of_map_replace:
  "name \<in> fst ` set es \<Longrightarrow>
   map_of (map (\<lambda>(n, x). if n = name then (n, RegularFile text) else (n, x)) es) name =
     Some (RegularFile text)"
  by (induction es) auto

lemma in_set_map_replace:
  "(m, y) \<in> set (map (\<lambda>(n, x). if n = name then (n, RegularFile text) else (n, x)) es) \<longleftrightarrow>
     (m = name \<and> y = RegularFile text \<and> name \<in> fst ` set es) \<or> (m \<noteq> name \<and> (m, y) \<in> set es)"
proof (induction es)
  case Nil
  show ?case by simp
next
  case (Cons entry es)
  obtain a b where entry: "entry = (a, b)" by (cases entry)
  show ?case
  proof (cases "a = name")
    case True
    then show ?thesis using Cons.IH by (auto simp: entry simp del: set_map)
  next
    case False
    then show ?thesis using Cons.IH by (auto simp: entry simp del: set_map)
  qed
qed

lemma map_replace_twice:
  "map (\<lambda>(n, x). if n = name then (n, RegularFile text) else (n, x))
     (map (\<lambda>(n, x). if n = name then (n, RegularFile text0) else (n, x)) es) =
   map (\<lambda>(n, x). if n = name then (n, RegularFile text) else (n, x)) es"
  by (induction es) auto

lemma fst_set_map_replace:
  "fst ` set (map (\<lambda>(n, x). if n = name then (n, RegularFile text) else (n, x)) es) = fst ` set es"
  by (induction es) (auto simp del: set_map)

lemma map_of_put_entry_same:
  "map_of (put_entry name text entries) name = Some (RegularFile text)"
proof (cases "name \<in> fst ` set entries")
  case False
  then have "map_of entries name = None" by (simp add: map_of_eq_None_iff)
  with False show ?thesis by (simp add: put_entry_def map_add_def)
next
  case True
  then show ?thesis by (simp add: put_entry_def map_of_map_replace)
qed

lemma in_set_put_entry:
  "(m, y) \<in> set (put_entry name text entries) \<longleftrightarrow>
     (m = name \<and> y = RegularFile text) \<or> (m \<noteq> name \<and> (m, y) \<in> set entries)"
proof (cases "name \<in> fst ` set entries")
  case False
  then have "(name, y) \<notin> set entries" by force
  with False show ?thesis by (auto simp: put_entry_def)
next
  case True
  have "put_entry name text entries =
          map (\<lambda>(n, x). if n = name then (n, RegularFile text) else (n, x)) entries"
    using True by (simp only: put_entry_def if_True)
  then show ?thesis using True by (simp only: in_set_map_replace) simp
qed

lemma put_entry_twice:
  "put_entry name text (put_entry name text0 entries) = put_entry name text entries"
proof (cases "name \<in> fst ` set entries")
  case False
  then show ?thesis by (simp add: put_entry_def map_replace_absent)
next
  case True
  then show ?thesis
    by (simp only: put_entry_def fst_set_map_replace if_True map_replace_twice)
qed

lemma length_hex_byte [simp]: "length (hex_byte b) = 2"
  by (simp add: hex_byte_def)

lemma length_token_bytes [simp]: "length (token_bytes src pos n) = n"
  by (simp add: token_bytes_def)

lemma length_token_hex: "length (token_hex src pos n) = 2 * n"
  by (simp add: token_hex_def token_bytes_def length_concat comp_def sum_list_triv)

lemma create_wallet_eq:
  assumes "from_key e (token_hex (entropy e) (rng_pos w) 32) = Inr address"
    and "wallets w = Dir entries"
    and "(address @ ''.json'', Directory) \<notin> set entries"
  shows "create_wallet e self w =
           (Inr (wallet_record e address (token_hex (entropy e) (rng_pos w) 32)),
            self\<lparr>accounts := (accounts self)(KStr address \<mapsto>
                     wallet_record e address (token_hex (entropy e) (rng_pos w) 32))\<rparr>,
            w\<lparr>rng_pos := rng_pos w + 32,
              wallets := Dir (put_entry (address @ ''.json'')
                 (json_dump e (wallet_record e address (token_hex (entropy e) (rng_pos w) 32))) entries)\<rparr>)"
  using assms by (simp add: create_wallet_def Let_def open_w_def write_w_def put_entry_twice)

lemma create_wallet_trace_eq:
  assumes "from_key e (token_hex (entropy e) (rng_pos w) 32) = Inr address"
    and "wallets w = Dir entries"
    and "(address @ ''.json'', Directory) \<notin> set entries"
  shows "create_wallet_trace e w =
           [Dir entries,
            Dir (put_entry (address @ ''.json'') [] entries),
            Dir (put_entry (address @ ''.json'')
                 (json_dump e (wallet_record e address (token_hex (entropy e) (rng_pos w) 32))) entries)]"
  using assms by (simp add: create_wallet_trace_def Let_def open_w_def write_w_def put_entry_twice)

section \<open>Creating a wallet\<close>

lemma networks_known:
  "net = ''sepolia'' \<or> net = ''goerli'' \<Longrightarrow> \<exists>cfg. networks e net = Some cfg"
  by (auto simp: networks_def)

lemma endswith_append: "endswith (s @ suf) suf"
  by (simp add: endswith_def)

lemma hex_digit_in: "hex_digit n \<in> set ''0123456789abcdef''"
  unfolding hex_digit_def by (rule nth_mem) simp

lemma set_hex_byte: "c \<in> set (hex_byte b) \<Longrightarrow> c \<in> set ''0123456789abcdef''"
proof -
  assume "c \<in> set (hex_byte b)"
  then have "c = hex_digit (unat b div 16) \<or> c = hex_digit (unat b mod 16)"
    by (simp add: hex_byte_def)
  then show ?thesis using hex_digit_in by blast
qed

lemma set_token_hex: "set (token_hex src pos n) \<subseteq> set ''0123456789abcdef''"
proof
  fix c assume "c \<in> set (token_hex src pos n)"
  then obtain b where "c \<in> set (hex_byte b)"
    by (auto simp: token_hex_def)
  then show "c \<in> set ''0123456789abcdef''" by (rule set_hex_byte)
qed

lemma load_wallet_record:
  assumes "json_load e text = Inr (wallet_record e address private_key)"
  shows "load_wallet_file e (RegularFile text) = Inr (KStr address, wallet_record e address private_key)"
  using assms by (simp add: load_wallet_file_def wallet_record_def)

lemma demo_token_hex: "token_hex (entropy demo_env) 0 32 = demo_private_key"
  by (simp add: token_hex_def token_bytes_def demo_env_def hex_byte_def hex_digit_def
        demo_private_key_def upt_rec)

lemma demo_from_key: "from_key demo_env (token_hex (entropy demo_env) (rng_pos (demo_world d)) 32) = Inr demo_address"
proof -
  have "rng_pos (demo_world d) = 0" by (simp add: demo_world_def)
  then show ?thesis by (simp add: demo_token_hex) (simp add: demo_env_def)
qed

lemma demo_wallet_record: "wallet_record demo_env demo_address demo_private_key = demo_wallet"
  by (simp add: wallet_record_def demo_wallet_def demo_env_def)

text \<open>
  Claim C7. \<^verbatim>\<open>create_wallet\<close> takes 32 bytes from the random source and writes them as
  64 lower-case hexadecimal digits, the private key. When eth_account accepts the key and
  the file can be opened, the returned record holds the address derived from that key, the
  key, and the digest of the address as \<^verbatim>\<open>public_key\<close>; the file named after the
  address holds the JSON text of that record, and \<^verbatim>\<open>self.accounts\<close> maps the address
  to the record.
\<close>

theorem create_wallet_generates:
  assumes "from_key e (token_hex (entropy e) (rng_pos w) 32) = Inr address"
    and "wallets w = Dir entries"
    and "(address @ ''.json'', Directory) \<notin> set entries"
  shows "\<exists>private_key wallet_data self' w'.
           create_wallet e self w = (Inr wallet_data, self', w') \<and>
           private_key = concat (map hex_byte (map (entropy e) [rng_pos w ..< rng_pos w + 32])) \<and>
           length private_key = 64 \<and>
           set private_key \<subseteq> set ''0123456789abcdef'' \<and>
           from_key e private_key = Inr address \<and>
           wallet_data = PDict [(''address'', PStr address),
                                (''private_key'', PStr private_key),
                                (''public_key'', PStr (keccak_text_hex e address))] \<and>
           file_text (wallets w') (address @ ''.json'') = Some (json_dump e wallet_data) \<and>
           accounts self' (KStr address) = Some wallet_data"
proof -
  let ?pk = "token_hex (entropy e) (rng_pos w) 32"
  have pk: "?pk = concat (map hex_byte (map (entropy e) [rng_pos w ..< rng_pos w + 32]))"
    by (simp add: token_hex_def token_bytes_def)
  have len: "length ?pk = 64" by (simp add: length_token_hex)
  have hex: "set ?pk \<subseteq> set ''0123456789abcdef''" by (rule set_token_hex)
  have rec: "wallet_record e address ?pk =
               PDict [(''address'', PStr address), (''private_key'', PStr ?pk),
                      (''public_key'', PStr (keccak_text_hex e address))]"
    by (simp add: wallet_record_def)
  have written: "file_text (Dir (put_entry (address @ ''.json'') t entries)) (address @ ''.json'') = Some t" for t
    by (simp add: file_text_def map_of_put_entry_same)
  show ?thesis
    unfolding create_wallet_eq [OF assms]
    using pk len hex rec written assms(1) by (simp del: set_simps list.set)
qed

theorem create_wallet_generates_witness:
  "\<exists>self' w'.
     create_wallet demo_env \<lparr>network = ''sepolia'', accounts = Map.empty\<rparr> (demo_world (Dir [])) =
       (Inr demo_wallet, self', w') \<and>
     length demo_private_key = 64 \<and>
     from_key demo_env demo_private_key = Inr demo_address \<and>
     file_text (wallets w') (demo_address @ ''.json'') = Some demo_wallet_text \<and>
     accounts self' (KStr demo_address) = Some demo_wallet"
proof -
  have dir: "wallets (demo_world (Dir [])) = Dir []" by (simp add: demo_world_def)
  have nodir: "(demo_address @ ''.json'', Directory) \<notin> set []" by simp
  have pos: "rng_pos (demo_world (Dir [])) = 0" by (simp add: demo_world_def)
  have dump: "json_dump demo_env demo_wallet = demo_wallet_text" by (simp add: demo_env_def)
  have pub: "keccak_text_hex demo_env demo_address = demo_public_key" by (simp add: demo_env_def)
  from create_wallet_generates [OF demo_from_key dir nodir, of "\<lparr>network = ''sepolia'', accounts = Map.empty\<rparr>"]
  show ?thesis
    unfolding pos token_hex_def [symmetric] token_bytes_def [symmetric] demo_token_hex
    by (simp only: pub) (auto simp: dump [unfolded demo_wallet_def] demo_wallet_def)
qed

text \<open>
  Claim C3, as the specification states it, fails: the file is opened in place with mode
  \<^verbatim>\<open>'w'\<close>, so between line 80 and the end of the \<^verbatim>\<open>with\<close> block the file of an
  address that already had a complete record is empty: neither the previous record nor
  the new one.
\<close>

theorem create_wallet_write_not_atomic:
  "file_text (wallets (demo_world (Dir [(demo_address @ ''.json'', RegularFile demo_wallet_text)])))
     (demo_address @ ''.json'') = Some demo_wallet_text \<and>
   json_load demo_env demo_wallet_text = Inr demo_wallet \<and>
   fst (create_wallet demo_env demo_self
          (demo_world (Dir [(demo_address @ ''.json'', RegularFile demo_wallet_text)]))) = Inr demo_wallet \<and>
   json_dump demo_env demo_wallet = demo_wallet_text \<and>
   length (create_wallet_trace demo_env
     (demo_world (Dir [(demo_address @ ''.json'', RegularFile demo_wallet_text)]))) = 3 \<and>
   file_text (create_wallet_trace demo_env
     (demo_world (Dir [(demo_address @ ''.json'', RegularFile demo_wallet_text)])) ! 1)
     (demo_address @ ''.json'') = Some [] \<and>
   Some [] \<noteq> Some demo_wallet_text"
proof -
  let ?w = "demo_world (Dir [(demo_address @ ''.json'', RegularFile demo_wallet_text)])"
  have dir: "wallets ?w = Dir [(demo_address @ ''.json'', RegularFile demo_wallet_text)]"
    by (simp add: demo_world_def)
  have nodir: "(demo_address @ ''.json'', Directory) \<notin> set [(demo_address @ ''.json'', RegularFile demo_wallet_text)]"
    by simp
  have pos: "rng_pos ?w = 0" by (simp add: demo_world_def)
  have dump: "json_dump demo_env demo_wallet = demo_wallet_text" by (simp add: demo_env_def)
  have load: "json_load demo_env demo_wallet_text = Inr demo_wallet" by (simp add: demo_env_def)
  have ne: "demo_wallet_text \<noteq> []" by (simp add: demo_wallet_text_def)
  show ?thesis
    unfolding create_wallet_trace_eq [OF demo_from_key dir nodir]
      create_wallet_eq [OF demo_from_key dir nodir]
    using ne by (simp add: dir dump load pos demo_token_hex demo_wallet_record file_text_def map_of_put_entry_same)
qed

text \<open>
  Claim C3, amended. \<^verbatim>\<open>create_wallet\<close> writes the record file in place: opening it
  creates it empty or cuts an existing record to length zero, and the text of the record
  is written afterwards. Once the call has completed, the file holds the complete new
  record.
\<close>

theorem create_wallet_write_in_place:
  assumes "from_key e (token_hex (entropy e) (rng_pos w) 32) = Inr address"
    and "wallets w = Dir entries"
    and "(address @ ''.json'', Directory) \<notin> set entries"
  shows "\<exists>opened written.
           create_wallet_trace e w = [wallets w, opened, written] \<and>
           file_text opened (address @ ''.json'') = Some [] \<and>
           file_text written (address @ ''.json'') =
             Some (json_dump e (wallet_record e address (token_hex (entropy e) (rng_pos w) 32))) \<and>
           wallets (snd (snd (create_wallet e self w))) = written"
  unfolding create_wallet_trace_eq [OF assms] create_wallet_eq [OF assms]
  by (simp add: assms(2) file_text_def map_of_put_entry_same)

theorem create_wallet_write_in_place_witness:
  "\<exists>opened written.
     create_wallet_trace demo_env (demo_world (Dir [])) = [Dir [], opened, written] \<and>
     file_text opened (demo_address @ ''.json'') = Some [] \<and>
     file_text written (demo_address @ ''.json'') = Some demo_wallet_text \<and>
     wallets (snd (snd (create_wallet demo_env demo_self (demo_world (Dir []))))) = written"
proof -
  have dir: "wallets (demo_world (Dir [])) = Dir []" by (simp add: demo_world_def)
  have nodir: "(demo_address @ ''.json'', Directory) \<notin> set []" by simp
  have pos: "rng_pos (demo_world (Dir [])) = 0" by (simp add: demo_world_def)
  have dump: "json_dump demo_env demo_wallet = demo_wallet_text" by (simp add: demo_env_def)
  from create_wallet_write_in_place [OF demo_from_key dir nodir, of demo_self]
  show ?thesis
    by (simp only: pos demo_token_hex demo_wallet_record dump dir)
qed

section \<open>Address validation\<close>

text \<open>
  Claim C9. \<^verbatim>\<open>request_airdrop\<close> raises \<^verbatim>\<open>ValueError("Invalid address")\<close> when
  \<^verbatim>\<open>is_address\<close> rejects its argument; otherwise it returns the status
  \<^verbatim>\<open>success\<close> with a message that embeds the faucet URL of the configured network.
  In both cases the object and the world come back as they were: no request is sent and
  the store is not modified.
\<close>

theorem request_airdrop_validates:
  "(\<not> is_address e address \<longrightarrow>
      request_airdrop e self w address = (Inl (ValueError ''Invalid address''), self, w)) \<and>
   (is_address e address \<and> networks e (network self) = Some cfg \<longrightarrow>
      request_airdrop e self w address =
        (Inr [(''status'', ''success''),
              (''message'',
                 ''Please visit '' @ faucet cfg @ '' to request tokens for address: '' @ address),
              (''network'', network self)],
         self, w))"
  by (simp add: request_airdrop_def)

theorem request_airdrop_validates_witness:
  "is_address demo_env demo_address \<and>
   faucet \<lparr>url = ''https://sepolia.infura.io/v3/infura-key'',
           explorer = ''https://api-sepolia.etherscan.io/api'',
           explorer_key = ''etherscan-key'',
           faucet = ''https://sepoliafaucet.com/''\<rparr> = ''https://sepoliafaucet.com/'' \<and>
   request_airdrop demo_env demo_self (demo_world (Dir demo_listing)) demo_address =
     (Inr [(''status'', ''success''),
           (''message'',
              ''Please visit https://sepoliafaucet.com/ to request tokens for address: '' @ demo_address),
           (''network'', ''sepolia'')],
      demo_self, demo_world (Dir demo_listing)) \<and>
   \<not> is_address demo_env ''7E5F'' \<and>
   request_airdrop demo_env demo_self (demo_world (Dir demo_listing)) ''7E5F'' =
     (Inl (ValueError ''Invalid address''), demo_self, demo_world (Dir demo_listing))"
proof -
  have valid: "is_address demo_env demo_address"
    by (simp add: demo_env_def demo_is_address_def demo_address_def)
  have invalid: "\<not> is_address demo_env ''7E5F''"
    by (simp add: demo_env_def demo_is_address_def)
  have cfg: "networks demo_env (network demo_self) =
               Some \<lparr>url = ''https://sepolia.infura.io/v3/infura-key'',
                     explorer = ''https://api-sepolia.etherscan.io/api'',
                     explorer_key = ''etherscan-key'',
                     faucet = ''https://sepoliafaucet.com/''\<rparr>"
    by (simp add: networks_def demo_self_def demo_env_def)
  have net: "network demo_self = ''sepolia''" by (simp add: demo_self_def)
  from request_airdrop_validates [of demo_env demo_address demo_self _
         "\<lparr>url = ''https://sepolia.infura.io/v3/infura-key'',
           explorer = ''https://api-sepolia.etherscan.io/api'',
           explorer_key = ''etherscan-key'',
           faucet = ''https://sepoliafaucet.com/''\<rparr>"]
       request_airdrop_validates [of demo_env "''7E5F''" demo_self]
       valid invalid cfg
  show ?thesis by (simp add: net)
qed

lemma get_transaction_history_invalid_address:
  "\<not> is_address e address \<Longrightarrow>
   get_transaction_history e self w address = (Inl (ValueError ''Invalid address''), self, w)"
  by (simp add: get_transaction_history_def)

lemma send_transaction_reaches_network:
  assumes "accounts self (KStr from_address) = Some account"
    and "getitem account ''private_key'' = Inr private_key"
  shows "\<exists>later. calls (snd (snd (send_transaction e self w from_address to_address amount))) =
           calls w @ GetTransactionCount from_address # later"
  using assms by (auto simp: send_transaction_def Let_def split: sum.splits)

text \<open>
  Claim C2 at a failing input. The sender is in the store and the recipient is not an
  address. \<^verbatim>\<open>send_transaction\<close> never checks \<open>to_address\<close>: it asks the node for
  the nonce, the gas price and the chain id, and the exception that ends the call is the
  signer's, not \<^verbatim>\<open>ValueError("Invalid address")\<close>.
\<close>

theorem send_transaction_invalid_recipient:
  "\<not> is_address demo_env ''not-an-address'' \<and>
   send_transaction demo_env demo_self (demo_world (Dir demo_listing)) demo_address ''not-an-address'' 1 =
     (Inl (External ''InvalidAddress''), demo_self,
      (demo_world (Dir demo_listing))\<lparr>calls := [GetTransactionCount demo_address, GasPrice, ChainId]\<rparr>)"
  by (simp add: send_transaction_def demo_self_def demo_env_def demo_world_def demo_wallet_def
        demo_is_address_def)

section \<open>The transaction history when the explorer fails\<close>

text \<open>
  Claim C4, as the specification states it, fails: when \<^verbatim>\<open>requests.get\<close> itself
  raises, \<^verbatim>\<open>get_transaction_history\<close> does not return an empty list; the exception
  reaches the caller.
\<close>

theorem get_transaction_history_network_failure:
  "is_address demo_env demo_address \<and>
   requests_get demo_env ''https://api-sepolia.etherscan.io/api''
     (history_params \<lparr>url = ''https://sepolia.infura.io/v3/infura-key'',
           explorer = ''https://api-sepolia.etherscan.io/api'',
           explorer_key = ''etherscan-key'',
           faucet = ''https://sepoliafaucet.com/''\<rparr> demo_address) = Inl (External ''ConnectionError'') \<and>
   fst (get_transaction_history demo_env demo_self (demo_world (Dir demo_listing)) demo_address) =
     Inl (External ''ConnectionError'') \<and>
   fst (get_transaction_history demo_env demo_self (demo_world (Dir demo_listing)) demo_address) \<noteq>
     Inr []"
  by (simp add: get_transaction_history_def demo_self_def demo_env_def demo_is_address_def
        demo_address_def networks_def)

text \<open>
  Claim C4, amended. For a valid address, \<^verbatim>\<open>get_transaction_history\<close> returns the
  empty list when the explorer answers with an HTTP status other than 200, and when it
  answers 200 with a body whose \<^verbatim>\<open>status\<close> is not \<^verbatim>\<open>"1"\<close>; when the request itself
  raises, that exception is raised to the caller.
\<close>

theorem get_transaction_history_degrades:
  assumes "is_address e address" and "networks e (network self) = Some cfg"
  shows "(requests_get e (explorer cfg) (history_params cfg address) = Inr r \<and> status_code r \<noteq> 200
            \<longrightarrow> fst (get_transaction_history e self w address) = Inr []) \<and>
         (requests_get e (explorer cfg) (history_params cfg address) = Inr r \<and> status_code r = 200 \<and>
          json r = Inr data \<and> getitem data ''status'' = Inr status \<and> status \<noteq> PStr ''1''
            \<longrightarrow> fst (get_transaction_history e self w address) = Inr []) \<and>
         (requests_get e (explorer cfg) (history_params cfg address) = Inl x
            \<longrightarrow> fst (get_transaction_history e self w address) = Inl x)"
  using assms by (simp add: get_transaction_history_def Let_def)


theorem get_transaction_history_degrades_witness:
  "is_address demo_env demo_address \<and>
   fst (get_transaction_history
          (demo_env\<lparr>requests_get :=
             (\<lambda>u p. Inr \<lparr>status_code = 503, json = Inl (External ''JSONDecodeError'')\<rparr>)\<rparr>)
          demo_self (demo_world (Dir demo_listing)) demo_address) = Inr [] \<and>
   fst (get_transaction_history
          (demo_env\<lparr>requests_get :=
             (\<lambda>u p. Inr \<lparr>status_code = 200,
                            json = Inr (PDict [(''status'', PStr ''0''),
                                               (''message'', PStr ''NOTOK''),
                                               (''result'', PStr ''Invalid API Key'')])\<rparr>)\<rparr>)
          demo_self (demo_world (Dir demo_listing)) demo_address) = Inr [] \<and>
   fst (get_transaction_history demo_env demo_self (demo_world (Dir demo_listing)) demo_address) =
     Inl (External ''ConnectionError'')"
proof -
  let ?cfg = "\<lparr>url = ''https://sepolia.infura.io/v3/infura-key'',
                explorer = ''https://api-sepolia.etherscan.io/api'',
                explorer_key = ''etherscan-key'',
                faucet = ''https://sepoliafaucet.com/''\<rparr>"
  let ?down = "\<lparr>status_code = 503, json = Inl (External ''JSONDecodeError'')\<rparr>"
  let ?body = "PDict [(''status'', PStr ''0''), (''message'', PStr ''NOTOK''),
                      (''result'', PStr ''Invalid API Key'')]"
  let ?notok = "\<lparr>status_code = 200, json = Inr ?body\<rparr>"
  let ?e1 = "demo_env\<lparr>requests_get := (\<lambda>u p. Inr ?down)\<rparr>"
  let ?e2 = "demo_env\<lparr>requests_get := (\<lambda>u p. Inr ?notok)\<rparr>"
  have valid: "is_address demo_env demo_address"
    by (simp add: demo_env_def demo_is_address_def demo_address_def)
  have valid1: "is_address ?e1 demo_address" using valid by simp
  have valid2: "is_address ?e2 demo_address" using valid by simp
  have cfg: "networks demo_env (network demo_self) = Some ?cfg"
    by (simp add: networks_def demo_self_def demo_env_def)
  have cfg1: "networks ?e1 (network demo_self) = Some ?cfg"
    by (simp add: networks_def demo_self_def demo_env_def)
  have cfg2: "networks ?e2 (network demo_self) = Some ?cfg"
    by (simp add: networks_def demo_self_def demo_env_def)
  have fails: "requests_get demo_env (explorer ?cfg) (history_params ?cfg demo_address) =
                 Inl (External ''ConnectionError'')"
    by (simp add: demo_env_def)
  from get_transaction_history_degrades [OF valid1 cfg1, where r = ?down]
  have a: "fst (get_transaction_history ?e1 demo_self (demo_world (Dir demo_listing)) demo_address) = Inr []"
    by simp
  from get_transaction_history_degrades [OF valid2 cfg2, where r = ?notok and data = ?body and status = "PStr ''0''"]
  have b: "fst (get_transaction_history ?e2 demo_self (demo_world (Dir demo_listing)) demo_address) = Inr []"
    by simp
  from get_transaction_history_degrades [OF valid cfg, where x = "External ''ConnectionError''"] fails
  have c: "fst (get_transaction_history demo_env demo_self (demo_world (Dir demo_listing)) demo_address) =
             Inl (External ''ConnectionError'')"
    by simp
  from valid a b c show ?thesis by simp
qed


section \<open>Initialisation over a directory of record files\<close>

lemma in_load_warnings_iff:
  "p \<in> set (load_warnings e entries) \<longleftrightarrow>
     (\<exists>filename node x. (filename, node) \<in> set entries \<and> endswith filename ''.json'' \<and>
        load_wallet_file e node = Inl x \<and> p = ErrorLoadingWallet filename x)"
proof (induction entries)
  case Nil
  show ?case by simp
next
  case (Cons entry rest)
  obtain filename node where entry: "entry = (filename, node)" by (cases entry)
  show ?case
  proof (cases "endswith filename ''.json''")
    case False
    then show ?thesis
      using Cons.IH by (auto simp: entry load_warnings_Cons)
  next
    case True
    show ?thesis
    proof (cases "load_wallet_file e node")
      case (Inl x)
      with True show ?thesis
        using Cons.IH by (auto simp: entry load_warnings_Cons)
    next
      case (Inr kv)
      with True show ?thesis
        using Cons.IH by (auto simp: entry load_warnings_Cons)
    qed
  qed
qed

lemma dom_map_of_rev: "dom (map_of (rev xs)) = fst ` set xs"
  by (simp add: dom_map_of_conv_image_fst)

lemma demo_texts_differ: "demo_other_text \<noteq> demo_wallet_text"
  by (simp add: demo_other_text_def demo_wallet_text_def)

lemma demo_load_wallet: "load_wallet_file demo_env (RegularFile demo_wallet_text) = Inr (KStr demo_address, demo_wallet)"
  by (simp add: load_wallet_file_def demo_env_def demo_wallet_def)

lemma demo_load_other: "load_wallet_file demo_env (RegularFile demo_other_text) = Inr (KStr demo_address, demo_other_wallet)"
  by (simp add: load_wallet_file_def demo_env_def demo_other_wallet_def demo_texts_differ)

lemma demo_load_broken: "load_wallet_file demo_env (RegularFile ''{'') = Inl (External ''JSONDecodeError'')"
  by (simp add: load_wallet_file_def demo_env_def demo_other_text_def demo_wallet_text_def)

lemma demo_load_folder: "load_wallet_file demo_env Directory = Inl IsADirectoryError"
  by (simp add: load_wallet_file_def)

lemma demo_endswith:
  "\<not> endswith ''notes.txt'' ''.json''" "endswith ''broken.json'' ''.json''"
  "endswith ''backup.json'' ''.json''" "endswith (demo_address @ ''.json'') ''.json''"
  "endswith ''folder.json'' ''.json''"
  by (simp_all add: endswith_def)

lemma demo_loaded_records:
  "loaded_records demo_env demo_listing = [(KStr demo_address, demo_other_wallet), (KStr demo_address, demo_wallet)]"
  by (simp add: demo_listing_def loaded_records_Cons demo_endswith demo_load_wallet demo_load_other
        demo_load_broken demo_load_folder)

lemma demo_load_warnings:
  "load_warnings demo_env demo_listing =
     [ErrorLoadingWallet ''broken.json'' (External ''JSONDecodeError''),
      ErrorLoadingWallet ''folder.json'' IsADirectoryError]"
  by (simp add: demo_listing_def load_warnings_Cons demo_endswith demo_load_wallet demo_load_other
        demo_load_broken demo_load_folder)

lemma load_wallet_file_address:
  assumes "json_load e text = Inr wallet_data"
    and "getitem wallet_data ''address'' = Inr a"
    and "py_hash_key a = Inr k"
  shows "load_wallet_file e (RegularFile text) = Inr (k, wallet_data)"
  using assms by (simp add: load_wallet_file_def)

lemma loaded_records_split:
  assumes "endswith filename ''.json''" and "load_wallet_file e node = Inr (k, wallet_data)"
  shows "loaded_records e (pre @ (filename, node) # post) =
           loaded_records e pre @ (k, wallet_data) # loaded_records e post"
  using assms by (simp add: loaded_records_append loaded_records_Cons)

text \<open>
  Claim C6. Over a directory that mixes unparseable and valid record files,
  \<^verbatim>\<open>CryptoWallet(network)\<close> returns an object whatever the files hold: each file
  ending in \<^verbatim>\<open>.json\<close> that raises while it is opened, decoded or keyed is skipped with
  one printed warning naming it, and the mapping is the dictionary built from exactly the
  records of the files that load, each under the key of its address.
\<close>

theorem init_skips_malformed_files:
  assumes "net = ''sepolia'' \<or> net = ''goerli''"
    and "wallets w = Dir entries"
  shows "\<exists>self w'.
           init e net w = (Inr self, w') \<and>
           wallets w' = Dir entries \<and>
           stdout w' = stdout w @ load_warnings e entries \<and>
           accounts self = map_of (rev (loaded_records e entries)) \<and>
           (\<forall>k. k \<in> dom (accounts self) \<longleftrightarrow>
              (\<exists>filename node wallet_data. (filename, node) \<in> set entries \<and>
                 endswith filename ''.json'' \<and> load_wallet_file e node = Inr (k, wallet_data))) \<and>
           (\<forall>k wallet_data. accounts self k = Some wallet_data \<longrightarrow>
              (\<exists>filename node. (filename, node) \<in> set entries \<and>
                 endswith filename ''.json'' \<and> load_wallet_file e node = Inr (k, wallet_data))) \<and>
           (\<forall>p. p \<in> set (load_warnings e entries) \<longleftrightarrow>
              (\<exists>filename node x. (filename, node) \<in> set entries \<and> endswith filename ''.json'' \<and>
                 load_wallet_file e node = Inl x \<and> p = ErrorLoadingWallet filename x))"
proof -
  obtain cfg where cfg: "networks e net = Some cfg"
    using networks_known [OF assms(1)] by blast
  have mk: "makedirs (wallets w) = Inr (Dir entries)"
    by (simp add: makedirs_def assms(2))
  have doms: "k \<in> dom (map_of (rev (loaded_records e entries))) \<longleftrightarrow>
      (\<exists>filename node wallet_data. (filename, node) \<in> set entries \<and>
         endswith filename ''.json'' \<and> load_wallet_file e node = Inr (k, wallet_data))" for k
  proof -
    have "k \<in> fst ` set (loaded_records e entries) \<longleftrightarrow>
            (\<exists>v. (k, v) \<in> set (loaded_records e entries))" by force
    then show ?thesis
      by (simp only: dom_map_of_rev in_loaded_records_iff) blast
  qed
  have vals: "map_of (rev (loaded_records e entries)) k = Some wallet_data \<Longrightarrow>
      (\<exists>filename node. (filename, node) \<in> set entries \<and>
         endswith filename ''.json'' \<and> load_wallet_file e node = Inr (k, wallet_data))" for k wallet_data
  proof -
    assume "map_of (rev (loaded_records e entries)) k = Some wallet_data"
    then have "(k, wallet_data) \<in> set (loaded_records e entries)"
      by (auto dest: map_of_SomeD)
    then show ?thesis by (simp only: in_loaded_records_iff)
  qed
  show ?thesis
    unfolding init_eq [OF cfg mk]
    using doms vals in_load_warnings_iff [of _ e entries]
    by (simp add: assms(2))
qed

theorem init_skips_malformed_files_witness:
  "\<exists>self w'.
     init demo_env ''sepolia'' (demo_world (Dir demo_listing)) = (Inr self, w') \<and>
     stdout w' = [ErrorLoadingWallet ''broken.json'' (External ''JSONDecodeError''),
                  ErrorLoadingWallet ''folder.json'' IsADirectoryError] \<and>
     accounts self (KStr demo_address) = Some demo_wallet \<and>
     dom (accounts self) = {KStr demo_address}"
proof -
  have net: "''sepolia'' = ''sepolia'' \<or> ''sepolia'' = ''goerli''" by simp
  have dir: "wallets (demo_world (Dir demo_listing)) = Dir demo_listing"
    by (simp add: demo_world_def)
  have out: "stdout (demo_world (Dir demo_listing)) = []" by (simp add: demo_world_def)
  from init_skips_malformed_files [OF net dir, of demo_env]
  obtain self w' where
    i: "init demo_env ''sepolia'' (demo_world (Dir demo_listing)) = (Inr self, w')" and
    o: "stdout w' = stdout (demo_world (Dir demo_listing)) @ load_warnings demo_env demo_listing" and
    a: "accounts self = map_of (rev (loaded_records demo_env demo_listing))"
    by blast
  have "accounts self (KStr demo_address) = Some demo_wallet"
    by (simp add: a demo_loaded_records)
  moreover have "dom (accounts self) = {KStr demo_address}"
    by (simp add: a demo_loaded_records dom_map_of_conv_image_fst)
  moreover have "stdout w' = [ErrorLoadingWallet ''broken.json'' (External ''JSONDecodeError''),
                  ErrorLoadingWallet ''folder.json'' IsADirectoryError]"
    by (simp add: o out demo_load_warnings)
  ultimately show ?thesis using i by blast
qed

text \<open>
  Claim C10. Initialisation looks only at the entries whose name ends in \<^verbatim>\<open>.json\<close>:
  the object and the printed warnings are those of the listing with every other entry
  removed. A record is keyed by the \<^verbatim>\<open>'address'\<close> inside the file, whatever the file
  is called, and when no later entry of the listing loads with the same key, that record
  is the entry of the mapping: of two files with the same address the later one wins.
\<close>

theorem init_reads_json_files_by_address:
  assumes "net = ''sepolia'' \<or> net = ''goerli''"
    and "wallets w = Dir entries"
  shows "fst (init e net w) =
           fst (init e net (w\<lparr>wallets := Dir (filter (\<lambda>(filename, node). endswith filename ''.json'') entries)\<rparr>)) \<and>
         stdout (snd (init e net w)) =
           stdout (snd (init e net (w\<lparr>wallets := Dir (filter (\<lambda>(filename, node). endswith filename ''.json'') entries)\<rparr>))) \<and>
         (\<forall>pre filename body post wallet_data a k.
            entries = pre @ (filename, RegularFile body) # post \<and>
            endswith filename ''.json'' \<and>
            json_load e body = Inr wallet_data \<and>
            getitem wallet_data ''address'' = Inr a \<and>
            py_hash_key a = Inr k \<and>
            (\<forall>(filename', node') \<in> set post.
               endswith filename' ''.json'' \<longrightarrow>
               (\<forall>wallet_data'. load_wallet_file e node' \<noteq> Inr (k, wallet_data')))
            \<longrightarrow> (\<exists>self w'. init e net w = (Inr self, w') \<and> accounts self k = Some wallet_data))"
proof -
  obtain cfg where cfg: "networks e net = Some cfg"
    using networks_known [OF assms(1)] by blast
  let ?json = "filter (\<lambda>(filename, node). endswith filename ''.json'') entries"
  have mk: "makedirs (wallets w) = Inr (Dir entries)"
    by (simp add: makedirs_def assms(2))
  have mk': "makedirs (wallets (w\<lparr>wallets := Dir ?json\<rparr>)) = Inr (Dir ?json)"
    by (simp add: makedirs_def)
  have whole: "init e net w =
      (Inr \<lparr>network = net, accounts = map_of (rev (loaded_records e entries))\<rparr>,
       w\<lparr>wallets := Dir entries, stdout := stdout w @ load_warnings e entries\<rparr>)"
    by (rule init_eq [OF cfg mk])
  have filtered: "init e net (w\<lparr>wallets := Dir ?json\<rparr>) =
      (Inr \<lparr>network = net, accounts = map_of (rev (loaded_records e entries))\<rparr>,
       w\<lparr>wallets := Dir ?json, stdout := stdout w @ load_warnings e entries\<rparr>)"
    using init_eq [OF cfg mk'] by (simp add: loaded_records_filter load_warnings_filter)
  have keyed: "map_of (rev (loaded_records e entries)) k = Some wallet_data"
    if split: "entries = pre @ (filename, RegularFile body) # post"
      and name: "endswith filename ''.json''"
      and parse: "json_load e body = Inr wallet_data"
      and addr: "getitem wallet_data ''address'' = Inr a"
      and hash: "py_hash_key a = Inr k"
      and later: "\<forall>(filename', node') \<in> set post.
               endswith filename' ''.json'' \<longrightarrow>
               (\<forall>wallet_data'. load_wallet_file e node' \<noteq> Inr (k, wallet_data'))"
    for pre filename body post wallet_data a k
  proof -
    have loaded: "load_wallet_file e (RegularFile body) = Inr (k, wallet_data)"
      by (rule load_wallet_file_address [OF parse addr hash])
    have none: "(k, v') \<notin> set (loaded_records e post)" for v'
      using later by (auto simp: in_loaded_records_iff)
    show ?thesis
      unfolding split loaded_records_split [OF name loaded]
      by (rule map_of_rev_split [OF none])
  qed
  show ?thesis
    unfolding whole filtered using keyed by (simp del: split_paired_All)
qed


theorem init_reads_json_files_by_address_witness:
  "endswith ''backup.json'' ''.json'' \<and>
   json_load demo_env demo_other_text = Inr demo_other_wallet \<and>
   getitem demo_other_wallet ''address'' = Inr (PStr demo_address) \<and>
   (\<exists>self w'.
      init demo_env ''sepolia'' (demo_world (Dir (rev demo_listing))) = (Inr self, w') \<and>
      accounts self (KStr demo_address) = Some demo_other_wallet) \<and>
   fst (init demo_env ''sepolia'' (demo_world (Dir (rev demo_listing)))) =
     fst (init demo_env ''sepolia''
            (demo_world (Dir [(''folder.json'', Directory),
                              (demo_address @ ''.json'', RegularFile demo_wallet_text),
                              (''backup.json'', RegularFile demo_other_text),
                              (''broken.json'', RegularFile ''{'')])))"
proof -
  let ?w = "demo_world (Dir (rev demo_listing))"
  let ?pre = "[(''folder.json'', Directory), (demo_address @ ''.json'', RegularFile demo_wallet_text)]"
  let ?post = "[(''broken.json'', RegularFile ''{''), (''notes.txt'', RegularFile demo_wallet_text)]"
  have net: "''sepolia'' = ''sepolia'' \<or> ''sepolia'' = ''goerli''" by simp
  have dir: "wallets ?w = Dir (rev demo_listing)" by (simp add: demo_world_def)
  have split: "rev demo_listing = ?pre @ (''backup.json'', RegularFile demo_other_text) # ?post"
    by (simp add: demo_listing_def)
  have name: "endswith ''backup.json'' ''.json''" by (rule demo_endswith)
  have parse: "json_load demo_env demo_other_text = Inr demo_other_wallet"
    by (simp add: demo_env_def demo_texts_differ)
  have addr: "getitem demo_other_wallet ''address'' = Inr (PStr demo_address)"
    by (simp add: demo_other_wallet_def)
  have hash: "py_hash_key (PStr demo_address) = Inr (KStr demo_address)" by simp
  have later: "\<forall>(filename', node') \<in> set ?post.
                 endswith filename' ''.json'' \<longrightarrow>
                 (\<forall>wallet_data'. load_wallet_file demo_env node' \<noteq> Inr (KStr demo_address, wallet_data'))"
    by (simp add: demo_endswith demo_load_broken)
  have filtered: "filter (\<lambda>(filename, node). endswith filename ''.json'') (rev demo_listing) =
          [(''folder.json'', Directory),
           (demo_address @ ''.json'', RegularFile demo_wallet_text),
           (''backup.json'', RegularFile demo_other_text),
           (''broken.json'', RegularFile ''{'')]"
    by (simp add: demo_listing_def demo_endswith)
  have upd: "?w\<lparr>wallets := Dir xs\<rparr> = demo_world (Dir xs)" for xs
    by (simp add: demo_world_def)
  note main = init_reads_json_files_by_address [OF net dir, of demo_env]
  from main have one: "fst (init demo_env ''sepolia'' ?w) =
      fst (init demo_env ''sepolia''
        (?w\<lparr>wallets := Dir (filter (\<lambda>(filename, node). endswith filename ''.json'') (rev demo_listing))\<rparr>))"
    by (rule conjunct1)
  from main split name parse addr hash later
  have two: "\<exists>self w'. init demo_env ''sepolia'' ?w = (Inr self, w') \<and>
               accounts self (KStr demo_address) = Some demo_other_wallet"
    by blast
  from one two name parse addr show ?thesis
    by (simp only: filtered upd)
qed

text \<open>
  Claim C5. A record made by \<^verbatim>\<open>create_wallet\<close> and written to the directory is found
  again by a new \<^verbatim>\<open>CryptoWallet\<close> over the same files, in any listing order: the entry
  under its address has the same \<^verbatim>\<open>address\<close>, \<^verbatim>\<open>private_key\<close> and
  \<^verbatim>\<open>public_key\<close>. The JSON codec is a parameter that is assumed to read back what it
  wrote for this record, and no other \<^verbatim>\<open>.json\<close> file of the directory carries the
  address.
\<close>

theorem create_then_reload_roundtrip:
  assumes net: "net = ''sepolia'' \<or> net = ''goerli''"
    and key: "from_key e (token_hex (entropy e) (rng_pos w) 32) = Inr address"
    and dir: "wallets w = Dir entries"
    and nodir: "(address @ ''.json'', Directory) \<notin> set entries"
    and codec: "json_load e (json_dump e (wallet_record e address (token_hex (entropy e) (rng_pos w) 32))) =
                  Inr (wallet_record e address (token_hex (entropy e) (rng_pos w) 32))"
    and fresh: "\<forall>(filename, node) \<in> set entries.
                  filename \<noteq> address @ ''.json'' \<and> endswith filename ''.json'' \<longrightarrow>
                  (\<forall>other. load_wallet_file e node \<noteq> Inr (KStr address, other))"
    and created: "create_wallet e self w = (result, self1, w1)"
    and written: "wallets w1 = Dir files"
    and same_dir: "wallets w2 = Dir listing" "set listing = set files"
  shows "\<exists>wallet_data self2 w3 reloaded.
           result = Inr wallet_data \<and>
           getitem wallet_data ''address'' = Inr (PStr address) \<and>
           init e net w2 = (Inr self2, w3) \<and>
           accounts self2 (KStr address) = Some reloaded \<and>
           getitem reloaded ''address'' = getitem wallet_data ''address'' \<and>
           getitem reloaded ''private_key'' = getitem wallet_data ''private_key'' \<and>
           getitem reloaded ''public_key'' = getitem wallet_data ''public_key''"
proof -
  let ?rec = "wallet_record e address (token_hex (entropy e) (rng_pos w) 32)"
  let ?path = "address @ ''.json''"
  let ?text = "json_dump e ?rec"
  obtain cfg where cfg: "networks e net = Some cfg"
    using networks_known [OF net] by blast
  from created create_wallet_eq [OF key dir nodir, of self]
  have res: "result = Inr ?rec" and w1: "wallets w1 = Dir (put_entry ?path ?text entries)"
    by auto
  from w1 written have files: "files = put_entry ?path ?text entries" by simp
  have mk: "makedirs (wallets w2) = Inr (Dir listing)"
    by (simp add: makedirs_def same_dir(1))
  have loaded: "load_wallet_file e (RegularFile ?text) = Inr (KStr address, ?rec)"
    by (rule load_wallet_record [OF codec])
  have "(?path, RegularFile ?text) \<in> set listing"
    by (simp add: same_dir(2) files in_set_put_entry)
  then have present: "(KStr address, ?rec) \<in> set (loaded_records e listing)"
    using loaded endswith_append [of address "''.json''"]
    by (auto simp: in_loaded_records_iff)
  have unique: "v = ?rec" if "(KStr address, v) \<in> set (loaded_records e listing)" for v
  proof -
    from that obtain filename node where
      mem: "(filename, node) \<in> set listing" and
      name: "endswith filename ''.json''" and
      ld: "load_wallet_file e node = Inr (KStr address, v)"
      by (auto simp: in_loaded_records_iff)
    from mem have "(filename = ?path \<and> node = RegularFile ?text) \<or>
                   (filename \<noteq> ?path \<and> (filename, node) \<in> set entries)"
      by (simp add: same_dir(2) files in_set_put_entry)
    then show ?thesis
    proof
      assume "filename = ?path \<and> node = RegularFile ?text"
      with ld loaded show ?thesis by simp
    next
      assume "filename \<noteq> ?path \<and> (filename, node) \<in> set entries"
      with fresh name ld show ?thesis by blast
    qed
  qed
  have entry: "map_of (rev (loaded_records e listing)) (KStr address) = Some ?rec"
    by (rule map_of_rev_last [OF present]) (rule unique)
  have addr: "getitem ?rec ''address'' = Inr (PStr address)"
    by (simp add: wallet_record_def)
  show ?thesis
    unfolding init_eq [OF cfg mk] res using entry addr by simp
qed


theorem create_then_reload_roundtrip_witness:
  "\<exists>self2 w3 reloaded.
     fst (create_wallet demo_env \<lparr>network = ''sepolia'', accounts = Map.empty\<rparr>
            (demo_world (Dir [(''notes.txt'', RegularFile demo_wallet_text),
                              (''broken.json'', RegularFile ''{'')]))) = Inr demo_wallet \<and>
     init demo_env ''goerli''
       (demo_world (Dir [(demo_address @ ''.json'', RegularFile demo_wallet_text),
                         (''broken.json'', RegularFile ''{''),
                         (''notes.txt'', RegularFile demo_wallet_text)])) = (Inr self2, w3) \<and>
     accounts self2 (KStr demo_address) = Some reloaded \<and>
     getitem reloaded ''address'' = Inr (PStr demo_address) \<and>
     getitem reloaded ''private_key'' = Inr (PStr demo_private_key) \<and>
     getitem reloaded ''public_key'' = Inr (PStr demo_public_key)"
proof -
  let ?self = "\<lparr>network = ''sepolia'', accounts = Map.empty\<rparr>"
  let ?entries = "[(''notes.txt'', RegularFile demo_wallet_text), (''broken.json'', RegularFile ''{'')]"
  let ?files = "?entries @ [(demo_address @ ''.json'', RegularFile demo_wallet_text)]"
  let ?listing = "[(demo_address @ ''.json'', RegularFile demo_wallet_text),
                   (''broken.json'', RegularFile ''{''),
                   (''notes.txt'', RegularFile demo_wallet_text)]"
  let ?w = "demo_world (Dir ?entries)"
  let ?w2 = "demo_world (Dir ?listing)"
  have net: "''goerli'' = ''sepolia'' \<or> ''goerli'' = ''goerli''" by simp
  have dir: "wallets ?w = Dir ?entries" by (simp add: demo_world_def)
  have pos: "rng_pos ?w = 0" by (simp add: demo_world_def)
  have names: "demo_address @ ''.json'' \<noteq> ''notes.txt''" "demo_address @ ''.json'' \<noteq> ''broken.json''"
    by (simp_all add: demo_address_def)
  have nodir: "(demo_address @ ''.json'', Directory) \<notin> set ?entries" by simp
  have dump: "json_dump demo_env demo_wallet = demo_wallet_text" by (simp add: demo_env_def)
  have load: "json_load demo_env demo_wallet_text = Inr demo_wallet" by (simp add: demo_env_def)
  have codec: "json_load demo_env (json_dump demo_env
                 (wallet_record demo_env demo_address (token_hex (entropy demo_env) (rng_pos ?w) 32))) =
               Inr (wallet_record demo_env demo_address (token_hex (entropy demo_env) (rng_pos ?w) 32))"
    by (simp only: pos demo_token_hex demo_wallet_record dump load)
  have fresh: "\<forall>(filename, node) \<in> set ?entries.
                 filename \<noteq> demo_address @ ''.json'' \<and> endswith filename ''.json'' \<longrightarrow>
                 (\<forall>other. load_wallet_file demo_env node \<noteq> Inr (KStr demo_address, other))"
    by (simp add: demo_endswith demo_load_broken)
  obtain result self1 w1 where created: "create_wallet demo_env ?self ?w = (result, self1, w1)"
    by (cases "create_wallet demo_env ?self ?w") blast
  have put: "put_entry (demo_address @ ''.json'') demo_wallet_text ?entries = ?files"
    using names by (simp add: put_entry_def)
  from created create_wallet_eq [OF demo_from_key dir nodir, of ?self]
  have result: "result = Inr demo_wallet" and written: "wallets w1 = Dir ?files"
    by (auto simp: pos demo_token_hex demo_wallet_record dump put)
  have listed: "wallets ?w2 = Dir ?listing" by (simp add: demo_world_def)
  have same: "set ?listing = set ?files" by auto
  have fields: "getitem demo_wallet ''address'' = Inr (PStr demo_address)"
    "getitem demo_wallet ''private_key'' = Inr (PStr demo_private_key)"
    "getitem demo_wallet ''public_key'' = Inr (PStr demo_public_key)"
    by (simp_all add: demo_wallet_def)
  from create_then_reload_roundtrip [OF net demo_from_key dir nodir codec fresh created written listed same]
  obtain wallet_data self2 w3 reloaded where
    r: "result = Inr wallet_data" and
    i: "init demo_env ''goerli'' ?w2 = (Inr self2, w3)" and
    a: "accounts self2 (KStr demo_address) = Some reloaded" and
    f: "getitem reloaded ''address'' = getitem wallet_data ''address''"
       "getitem reloaded ''private_key'' = getitem wallet_data ''private_key''"
       "getitem reloaded ''public_key'' = getitem wallet_data ''public_key''"
    by blast
  from r result have wd: "wallet_data = demo_wallet" by simp
  have c: "fst (create_wallet demo_env ?self ?w) = Inr demo_wallet"
    by (simp add: created result)
  have g: "getitem reloaded ''address'' = Inr (PStr demo_address)"
    "getitem reloaded ''private_key'' = Inr (PStr demo_private_key)"
    "getitem reloaded ''public_key'' = Inr (PStr demo_public_key)"
    using f fields by (simp_all add: wd)
  show ?thesis
    by (rule exI [of _ self2], rule exI [of _ w3], rule exI [of _ reloaded]) (simp only: c i a g simp_thms)
qed

end
